theory Spec2Isabelle
  imports Complex_Main
begin

section \<open>Time and numbers\<close>

text \<open>
  A JavaScript \<^verbatim>\<open>Date\<close> is represented by the value of \<^verbatim>\<open>getTime()\<close>: the number of
  milliseconds since the epoch, an integer. Streak counters and day numbers are JavaScript
  numbers that only ever hold integers here; they are modelled as \<open>int\<close>. The time value
  of a valid date is an integer of magnitude at most 8.64e15, below 2^53, and is a double
  exactly.

  The difference of two time values is a double subtraction. The exact difference is below
  2^54 in magnitude. Up to 2^53 it is a double itself; beyond that the doubles are the even
  integers, and an odd difference rounds to the even neighbour whose half is even, the
  multiple of 4. \<open>toDouble\<close> is that rounding, for integers below 2^54 in magnitude.

  The quotient of such a double by 86400000 is below 2^28. When it is not an integer it is
  at least 1/86400000 away from one (2/86400000 when the dividend is beyond 2^53, where it
  is even), which is more than half a unit in the last place of a double of that size:
  \<^verbatim>\<open>Math.floor\<close> and \<^verbatim>\<open>Math.ceil\<close> of the double quotient are the floor and the ceiling of
  the exact quotient of the double dividend.
\<close>

type_synonym date = int

definition msPerDay :: int where
  "msPerDay = 1000 * 60 * 60 * 24"

definition toDouble :: "int \<Rightarrow> int" where
  "toDouble x =
     (if \<bar>x\<bar> \<le> 2 ^ 53 \<or> even x then x
      else if 4 dvd (x + 1) then x + 1
      else x - 1)"

definition digitChar :: "nat \<Rightarrow> char" where
  "digitChar d =
     (if d = 0 then CHR ''0'' else if d = 1 then CHR ''1'' else if d = 2 then CHR ''2''
      else if d = 3 then CHR ''3'' else if d = 4 then CHR ''4'' else if d = 5 then CHR ''5''
      else if d = 6 then CHR ''6'' else if d = 7 then CHR ''7'' else if d = 8 then CHR ''8''
      else CHR ''9'')"

fun natToString :: "nat \<Rightarrow> string" where
  "natToString n =
     (if n < 10 then [digitChar n] else natToString (n div 10) @ [digitChar (n mod 10)])"

declare natToString.simps [simp del]

text \<open>The decimal text a template literal \<^verbatim>\<open>${n}\<close> produces for an integer number.\<close>

definition numberToString :: "int \<Rightarrow> string" where
  "numberToString i = (if i < 0 then CHR ''-'' # natToString (nat (- i)) else natToString (nat i))"

section \<open>StorageService: data\<close>

datatype angle = Front | Side | Back

fun angleToString :: "angle \<Rightarrow> string" where
  "angleToString Front = ''front''"
| "angleToString Side = ''side''"
| "angleToString Back = ''back''"

record metadata =
  fileSize :: int
  width :: int
  height :: int

text \<open>The field \<^verbatim>\<open>id\<close> of the source is \<open>photoId\<close> here (\<open>id\<close> is the identity of HOL).\<close>

record StoredPhoto =
  photoId :: string
  dayNumber :: int
  angle :: angle
  photoUri :: string
  localPath :: string
  timestamp :: date
  metadata :: metadata

record UserProgress =
  startDate :: date
  currentStreak :: int
  longestStreak :: int
  totalPhotos :: int
  lastPhotoDate :: "date option"
  photos :: "StoredPhoto list"

text \<open>
  What AsyncStorage holds under \<^verbatim>\<open>user_progress\<close>: nothing, or the serialised progress.
  \<^verbatim>\<open>JSON.stringify\<close> writes every date as an ISO string with millisecond precision and
  \<^verbatim>\<open>getUserProgress\<close> converts each one back, so the round trip is the identity.
\<close>

type_synonym progress_store = "UserProgress option"

text \<open>The places where \<^verbatim>\<open>savePhoto\<close> and \<^verbatim>\<open>initializeUser\<close> can throw.\<close>

datatype error =
    InitializeError
  | ProgressNotFound
  | CopyError
  | FileInfoError
  | StorageWriteError

section \<open>StorageService: operations\<close>

text \<open>
  \<^verbatim>\<open>initializeUser\<close> writes the profile, then the initial progress, then the app state, each
  with \<^verbatim>\<open>AsyncStorage.setItem\<close>; the first write that fails throws and the later ones do
  not happen. The three booleans say whether each write succeeds; \<open>now\<close> is the clock
  reading of \<^verbatim>\<open>startDate: new Date()\<close>.
\<close>

definition initialProgress :: "date \<Rightarrow> UserProgress" where
  "initialProgress now =
     \<lparr>startDate = now, currentStreak = 0, longestStreak = 0, totalPhotos = 0,
      lastPhotoDate = None, photos = []\<rparr>"

definition initializeUser ::
  "bool \<Rightarrow> bool \<Rightarrow> bool \<Rightarrow> date \<Rightarrow> progress_store \<Rightarrow> (error + unit) \<times> progress_store" where
  "initializeUser profileWriteOk progressWriteOk appStateWriteOk now store =
     (if \<not> profileWriteOk then (Inl StorageWriteError, store)
      else if \<not> progressWriteOk then (Inl StorageWriteError, store)
      else if \<not> appStateWriteOk then (Inl StorageWriteError, Some (initialProgress now))
      else (Inr (), Some (initialProgress now)))"

text \<open>
  \<^verbatim>\<open>getUserProgress\<close> returns null when nothing is stored and when the read throws
  (the catch block returns null).
\<close>

definition getUserProgress :: "bool \<Rightarrow> progress_store \<Rightarrow> UserProgress option" where
  "getUserProgress readOk store = (if readOk then store else None)"

text \<open>
  \<^verbatim>\<open>calculateDayNumber\<close>: \<^verbatim>\<open>Math.ceil(Math.abs(now - startDate) / (1000*60*60*24))\<close>.
  The subtraction is the double one. The ceiling of a quotient of integers is written with
  integer division; lemma \<open>calculateDayNumber_ceiling\<close> below states it with the ceiling
  of the real quotient, for differences of at most 2^53 ms, where the subtraction is exact.
\<close>

definition calculateDayNumber :: "date \<Rightarrow> date \<Rightarrow> int" where
  "calculateDayNumber now startDate' =
     (let diffTime = \<bar>toDouble (now - startDate')\<bar>;
          diffDays = - ((- diffTime) div msPerDay)
      in diffDays)"

text \<open>
  \<^verbatim>\<open>updateStreak\<close> mutates the progress object it is given; the model returns the updated
  record. \<open>today\<close> is the clock reading of its \<^verbatim>\<open>new Date()\<close>. \<^verbatim>\<open>Math.floor\<close> of the
  quotient is integer division, which rounds towards minus infinity. The rounding of the
  subtraction cannot change the branch taken: it happens only beyond 2^53 ms, where the
  quotient is far from 0 and from 1 with or without it; the difference is written exactly.
\<close>

definition updateStreak :: "date \<Rightarrow> UserProgress \<Rightarrow> UserProgress" where
  "updateStreak today progress =
     (let progress1 =
        (case lastPhotoDate progress of
           None \<Rightarrow> progress\<lparr>currentStreak := 1\<rparr>
         | Some lastPhotoDate' \<Rightarrow>
             (let daysDiff = (today - lastPhotoDate') div msPerDay
              in if daysDiff = 1 then progress\<lparr>currentStreak := currentStreak progress + 1\<rparr>
                 else if daysDiff = 0 then progress
                 else progress\<lparr>currentStreak := 1\<rparr>))
      in if currentStreak progress1 > longestStreak progress1
         then progress1\<lparr>longestStreak := currentStreak progress1\<rparr>
         else progress1)"

text \<open>
  Everything \<^verbatim>\<open>savePhoto\<close> takes from outside: the platform's document directory, the
  outcome of each awaited call, and the five clock readings, in the order the code takes
  them (\<open>nowDayNumber\<close> in \<^verbatim>\<open>calculateDayNumber\<close>, \<open>nowId\<close> for \<^verbatim>\<open>Date.now()\<close> in the id,
  \<open>nowTimestamp\<close> for the record's \<^verbatim>\<open>timestamp\<close>, \<open>nowLastPhoto\<close> for
  \<^verbatim>\<open>progress.lastPhotoDate = new Date()\<close>, \<open>nowStreak\<close> for \<^verbatim>\<open>today\<close> in
  \<^verbatim>\<open>updateStreak\<close>). \<open>fileInfo\<close> is the result of \<^verbatim>\<open>getInfoAsync\<close>: \<open>None\<close> when it
  throws, \<open>Some None\<close> when the info has no size, \<open>Some (Some n)\<close> otherwise.
\<close>

record save_env =
  documentDirectory :: string
  initializeOk :: bool
  readOk :: bool
  nowDayNumber :: date
  nowId :: date
  copyOk :: bool
  fileInfo :: "int option option"
  nowTimestamp :: date
  nowLastPhoto :: date
  nowStreak :: date
  writeOk :: bool

definition PHOTOS_DIR :: "save_env \<Rightarrow> string" where
  "PHOTOS_DIR env = documentDirectory env @ ''progress_photos/''"

text \<open>
  \<^verbatim>\<open>savePhoto\<close> returns the stored photo or the error thrown, together with the content
  of \<^verbatim>\<open>user_progress\<close> afterwards. The progress object it mutates is the private copy
  parsed by \<^verbatim>\<open>getUserProgress\<close>; only the final \<^verbatim>\<open>setItem\<close> changes what is stored.
\<close>

definition savePhoto ::
  "save_env \<Rightarrow> string \<Rightarrow> angle \<Rightarrow> progress_store \<Rightarrow> (error + StoredPhoto) \<times> progress_store" where
  "savePhoto env photoUri' angle' store =
     (if \<not> initializeOk env then (Inl InitializeError, store)
      else case getUserProgress (readOk env) store of
        None \<Rightarrow> (Inl ProgressNotFound, store)
      | Some progress \<Rightarrow>
          (let dayNumber' = calculateDayNumber (nowDayNumber env) (startDate progress);
               photoId' = numberToString dayNumber' @ ''_'' @ angleToString angle' @ ''_''
                            @ numberToString (nowId env);
               localPath' = PHOTOS_DIR env @ photoId' @ ''.jpg''
           in if \<not> copyOk env then (Inl CopyError, store)
              else case fileInfo env of
                None \<Rightarrow> (Inl FileInfoError, store)
              | Some size' \<Rightarrow>
                  (let storedPhoto =
                         \<lparr>photoId = photoId', dayNumber = dayNumber', angle = angle',
                          photoUri = photoUri', localPath = localPath',
                          timestamp = nowTimestamp env,
                          metadata = \<lparr>fileSize = (case size' of None \<Rightarrow> 0 | Some n \<Rightarrow> n),
                                      width = 0, height = 0\<rparr>\<rparr>;
                       progress1 = progress\<lparr>photos := photos progress @ [storedPhoto]\<rparr>;
                       progress2 = progress1\<lparr>totalPhotos := int (length (photos progress1))\<rparr>;
                       progress3 = progress2\<lparr>lastPhotoDate := Some (nowLastPhoto env)\<rparr>;
                       progress4 = updateStreak (nowStreak env) progress3
                   in if \<not> writeOk env then (Inl StorageWriteError, store)
                      else (Inr storedPhoto, Some progress4))))"

text \<open>A sequence of \<^verbatim>\<open>savePhoto\<close> calls, each with its own environment and arguments.\<close>

fun savePhotos :: "progress_store \<Rightarrow> (save_env \<times> string \<times> angle) list \<Rightarrow> progress_store" where
  "savePhotos store [] = store"
| "savePhotos store ((env, photoUri', angle') # calls) =
     savePhotos (snd (savePhoto env photoUri' angle' store)) calls"

text \<open>
  A capture at the single instant \<open>t\<close>: every clock reading of \<^verbatim>\<open>savePhoto\<close> is \<open>t\<close>
  and every awaited call succeeds.
\<close>

definition captureAt :: "date \<Rightarrow> save_env" where
  "captureAt t =
     \<lparr>documentDirectory = ''file:///data/'', initializeOk = True, readOk = True,
      nowDayNumber = t, nowId = t, copyOk = True, fileInfo = Some (Some 1024),
      nowTimestamp = t, nowLastPhoto = t, nowStreak = t, writeOk = True\<rparr>"

text \<open>The record \<^verbatim>\<open>savePhoto\<close> builds (its \<^verbatim>\<open>storedPhoto\<close>), named for the lemmas below.\<close>

definition newPhoto ::
  "save_env \<Rightarrow> string \<Rightarrow> angle \<Rightarrow> UserProgress \<Rightarrow> int option \<Rightarrow> StoredPhoto" where
  "newPhoto env uri a p sz =
     \<lparr>photoId = numberToString (calculateDayNumber (nowDayNumber env) (startDate p)) @ ''_''
                  @ angleToString a @ ''_'' @ numberToString (nowId env),
      dayNumber = calculateDayNumber (nowDayNumber env) (startDate p), angle = a,
      photoUri = uri,
      localPath = PHOTOS_DIR env
                  @ (numberToString (calculateDayNumber (nowDayNumber env) (startDate p)) @ ''_''
                  @ angleToString a @ ''_'' @ numberToString (nowId env)) @ ''.jpg'',
      timestamp = nowTimestamp env,
      metadata = \<lparr>fileSize = (case sz of None \<Rightarrow> 0 | Some n \<Rightarrow> n), width = 0, height = 0\<rparr>\<rparr>"

section \<open>NotificationService: data\<close>

text \<open>
  The nested settings objects all call their flag \<^verbatim>\<open>enabled\<close> and their time \<^verbatim>\<open>time\<close>;
  record fields are global names, so each carries its object's name here.
\<close>

record DailyReminder =
  dailyEnabled :: bool
  dailyTime :: string

record StreakCelebration =
  celebrationEnabled :: bool
  milestones :: "int list"

record WeeklyProgress =
  weeklyEnabled :: bool
  weeklyDay :: int
  weeklyTime :: string

record GraceReminder =
  graceEnabled :: bool
  hoursAfterMissed :: int

record NotificationSettings =
  dailyReminder :: DailyReminder
  streakCelebration :: StreakCelebration
  weeklyProgress :: WeeklyProgress
  graceReminder :: GraceReminder

definition DEFAULT_SETTINGS :: NotificationSettings where
  "DEFAULT_SETTINGS =
     \<lparr>dailyReminder = \<lparr>dailyEnabled = True, dailyTime = ''18:00''\<rparr>,
      streakCelebration =
        \<lparr>celebrationEnabled = True, milestones = [3, 7, 14, 30, 60, 90, 180, 365]\<rparr>,
      weeklyProgress = \<lparr>weeklyEnabled = True, weeklyDay = 0, weeklyTime = ''10:00''\<rparr>,
      graceReminder = \<lparr>graceEnabled = True, hoursAfterMissed = 12\<rparr>\<rparr>"

text \<open>
  The content of a notification. Strings are byte lists: an emoji of the source is written
  as its UTF-8 bytes. \<open>dataStreakDays\<close> is the \<^verbatim>\<open>streakDays\<close> entry of \<^verbatim>\<open>data\<close>, present
  only in a streak celebration.
\<close>

record content =
  title :: string
  body :: string
  dataType :: string
  dataStreakDays :: "int option"
  sound :: bool

text \<open>
  The trigger of \<^verbatim>\<open>scheduleNotificationAsync\<close>. \<open>Immediately\<close> is \<^verbatim>\<open>trigger: null\<close>. The
  hour and minute of a repeating trigger are kept as the pieces of the \<^verbatim>\<open>HH:MM\<close> text the
  code converts with \<^verbatim>\<open>Number\<close>; \<open>None\<close> is a piece that \<^verbatim>\<open>split\<close> did not produce
  (\<^verbatim>\<open>undefined\<close>).
\<close>

datatype trigger =
    Immediately
  | DailyTrigger "string option" "string option"
  | WeeklyTrigger int "string option" "string option"

text \<open>The calls made to the expo-notifications module, in the order they are issued.\<close>

datatype notifier_call =
    CancelAllScheduledNotifications
  | CancelScheduledNotification string
  | ScheduleNotification content trigger

text \<open>
  The state the service works on: the stored settings and the stored daily-reminder
  identifier (both under AsyncStorage), and the log of calls issued to the notifier.
\<close>

record notif_state =
  settingsData :: "NotificationSettings option"
  dailyReminderId :: "string option"
  notifierCalls :: "notifier_call list"


text \<open>
  \<^verbatim>\<open>getSettings\<close> is declared \<^verbatim>\<open>async\<close>: a call returns a Promise of the settings. The
  callers inside the service (\<^verbatim>\<open>scheduleDailyReminder\<close>, \<^verbatim>\<open>scheduleWeeklyProgress\<close>,
  \<^verbatim>\<open>sendStreakCelebration\<close>) do not \<^verbatim>\<open>await\<close> it: their \<^verbatim>\<open>settings\<close> is the Promise
  object. Reading a property the Promise does not have gives \<^verbatim>\<open>undefined\<close>, and the next
  member access (\<^verbatim>\<open>.enabled\<close>) throws a TypeError, which the function's own catch block
  logs. \<open>Promise x\<close> is the un-awaited result, \<open>Plain x\<close> the settings object itself;
  \<open>property\<close> is the property read, \<open>None\<close> for \<^verbatim>\<open>undefined\<close>.
\<close>

datatype 'a js_value = Promise 'a | Plain 'a

definition property :: "('a \<Rightarrow> 'b) \<Rightarrow> 'a js_value \<Rightarrow> 'b option" where
  "property field v = (case v of Promise _ \<Rightarrow> None | Plain obj \<Rightarrow> Some (field obj))"

section \<open>NotificationService: operations\<close>

text \<open>
  The Promise \<^verbatim>\<open>getSettings\<close> returns resolves to the stored settings, or to the defaults
  when nothing is stored. (A read that rejects is caught inside \<^verbatim>\<open>getSettings\<close> and makes
  it resolve to the defaults as well; no caller below looks inside the Promise.)
\<close>

definition getSettings :: "notif_state \<Rightarrow> NotificationSettings js_value" where
  "getSettings st =
     Promise (case settingsData st of None \<Rightarrow> DEFAULT_SETTINGS | Some settings \<Rightarrow> settings)"


text \<open>\<^verbatim>\<open>time.split(':')\<close>: the pieces of a text between the separators.\<close>

fun split :: "char \<Rightarrow> string \<Rightarrow> string list" where
  "split sep [] = [[]]"
| "split sep (c # cs) =
     (if c = sep then [] # split sep cs
      else (case split sep cs of [] \<Rightarrow> [[c]] | piece # pieces \<Rightarrow> (c # piece) # pieces))"












text \<open>The title and body \<^verbatim>\<open>sendStreakCelebration\<close> selects: its chain of four tiers.\<close>

definition celebrationCopy :: "int \<Rightarrow> string \<times> string" where
  "celebrationCopy streakDays =
     (if streakDays \<le> 7 then
        ([CHR 0xF0, CHR 0x9F, CHR 0x94, CHR 0xA5] @ '' '' @ numberToString streakDays
           @ '' Day Streak!'',
         ''You'' @ [CHR 0x27] @ ''re building momentum! Keep going strong!'')
      else if streakDays \<le> 30 then
        ([CHR 0xF0, CHR 0x9F, CHR 0x92, CHR 0xAA] @ '' '' @ numberToString streakDays
           @ '' Day Streak!'',
         ''Amazing consistency! Your dedication is showing results!'')
      else if streakDays \<le> 90 then
        ([CHR 0xF0, CHR 0x9F, CHR 0x9A, CHR 0x80] @ '' '' @ numberToString streakDays
           @ '' Day Streak!'',
         ''Incredible! You'' @ [CHR 0x27] @ ''re a progress tracking champion!'')
      else
        ([CHR 0xF0, CHR 0x9F, CHR 0x91, CHR 0x91] @ '' '' @ numberToString streakDays
           @ '' Day Streak!'',
         ''LEGENDARY! You'' @ [CHR 0x27] @ ''re an inspiration to everyone!''))"

text \<open>
  \<^verbatim>\<open>sendStreakCelebration\<close>, as a function of the value its \<^verbatim>\<open>settings\<close> variable holds.
  \<^verbatim>\<open>milestones.includes(streakDays)\<close> is list membership.
\<close>

definition sendStreakCelebrationOn ::
  "NotificationSettings js_value \<Rightarrow> int \<Rightarrow> notif_state \<Rightarrow> notif_state" where
  "sendStreakCelebrationOn settings streakDays st =
     (case property streakCelebration settings of
        None \<Rightarrow> st
      | Some celebration \<Rightarrow>
          if \<not> celebrationEnabled celebration then st
          else if \<not> List.member (milestones celebration) streakDays then st
          else st\<lparr>notifierCalls := notifierCalls st
                 @ [ScheduleNotification
                      \<lparr>title = fst (celebrationCopy streakDays),
                       body = snd (celebrationCopy streakDays),
                       dataType = ''streak_celebration'',
                       dataStreakDays = Some streakDays, sound = True\<rparr>
                      Immediately]\<rparr>)"

definition sendStreakCelebration :: "int \<Rightarrow> notif_state \<Rightarrow> notif_state" where
  "sendStreakCelebration streakDays st = sendStreakCelebrationOn (getSettings st) streakDays st"

text \<open>A freshly installed service: nothing stored, no call issued yet.\<close>

definition freshState :: notif_state where
  "freshState = \<lparr>settingsData = None, dailyReminderId = None, notifierCalls = []\<rparr>"


section \<open>Arithmetic of the day computations\<close>

lemma msPerDay_value: "msPerDay = 86400000"
  by (simp add: msPerDay_def)

lemma toDouble_exact: "\<bar>x\<bar> \<le> 2 ^ 53 \<Longrightarrow> toDouble x = x"
  by (simp add: toDouble_def)

lemma toDouble_zero_iff: "toDouble x = 0 \<longleftrightarrow> x = 0"
  by (auto simp add: toDouble_def)

lemma calculateDayNumber_ceiling:
  assumes "\<bar>now - start\<bar> \<le> 2 ^ 53"
  shows "calculateDayNumber now start = \<lceil>real_of_int \<bar>now - start\<bar> / real_of_int msPerDay\<rceil>"
  using toDouble_exact [OF assms]
  by (simp only: calculateDayNumber_def Let_def ceiling_divide_eq_div)

text \<open>
  Beyond 2^53 ms the rounding shows: between the earliest valid date and a date
  11596411699200001 ms later the subtraction gives 11596411699200000, which is 134217728
  days exactly.
\<close>

lemma calculateDayNumber_rounded_difference:
  "calculateDayNumber 2956411699200001 (- 8640000000000000) = 134217728"
  by (simp add: calculateDayNumber_def toDouble_def msPerDay_def)

lemma daysDiff_same_day:
  "prev \<le> today \<Longrightarrow> today < prev + msPerDay \<Longrightarrow> (today - prev) div msPerDay = 0"
  by (simp add: msPerDay_def)

lemma daysDiff_negative:
  "today < prev \<Longrightarrow> (today - prev) div msPerDay < 0"
  by (simp add: msPerDay_def)

section \<open>Facts about updateStreak\<close>

lemma updateStreak_startDate [simp]: "startDate (updateStreak today p) = startDate p"
  by (simp add: updateStreak_def Let_def split: option.split)

lemma updateStreak_totalPhotos [simp]: "totalPhotos (updateStreak today p) = totalPhotos p"
  by (simp add: updateStreak_def Let_def split: option.split)

lemma updateStreak_photos [simp]: "photos (updateStreak today p) = photos p"
  by (simp add: updateStreak_def Let_def split: option.split)

lemma updateStreak_lastPhotoDate [simp]:
  "lastPhotoDate (updateStreak today p) = lastPhotoDate p"
  by (simp add: updateStreak_def Let_def split: option.split)

lemma updateStreak_current_le_longest:
  "currentStreak (updateStreak today p) \<le> longestStreak (updateStreak today p)"
  by (simp add: updateStreak_def Let_def split: option.split)

lemma updateStreak_longest_mono:
  "longestStreak p \<le> longestStreak (updateStreak today p)"
  by (simp add: updateStreak_def Let_def split: option.split)

lemma updateStreak_within_a_day:
  assumes "lastPhotoDate p = Some prev" "prev \<le> today" "today < prev + msPerDay"
  shows "currentStreak (updateStreak today p) = currentStreak p"
  using assms daysDiff_same_day [of prev today]
  by (simp add: updateStreak_def Let_def)

lemma updateStreak_backdated:
  assumes "lastPhotoDate p = Some prev" "today < prev"
  shows "currentStreak (updateStreak today p) = 1"
  using assms daysDiff_negative [of today prev]
  by (simp add: updateStreak_def Let_def)

text \<open>
  Called on a progress that still holds the date of the previous photo, \<^verbatim>\<open>updateStreak\<close>
  makes the transitions its comments name: 1 for a first photo, one more for a consecutive
  day.
\<close>

lemma updateStreak_first_photo:
  assumes "lastPhotoDate p = None"
  shows "currentStreak (updateStreak today p) = 1"
  using assms by (simp add: updateStreak_def Let_def)

lemma updateStreak_consecutive_day:
  assumes "lastPhotoDate p = Some prev" "(today - prev) div msPerDay = 1"
  shows "currentStreak (updateStreak today p) = currentStreak p + 1"
  using assms by (simp add: updateStreak_def Let_def)

section \<open>Facts about savePhoto\<close>

lemma captureAt_simps [simp]:
  "initializeOk (captureAt t)" "readOk (captureAt t)" "copyOk (captureAt t)"
  "fileInfo (captureAt t) = Some (Some 1024)" "writeOk (captureAt t)"
  "nowDayNumber (captureAt t) = t" "nowId (captureAt t) = t" "nowTimestamp (captureAt t) = t"
  "nowLastPhoto (captureAt t) = t" "nowStreak (captureAt t) = t"
  "documentDirectory (captureAt t) = ''file:///data/''"
  by (simp_all add: captureAt_def)

lemma savePhoto_success:
  assumes "initializeOk env" "readOk env" "copyOk env" "fileInfo env = Some sz" "writeOk env"
  shows "savePhoto env uri a (Some p) =
           (Inr (newPhoto env uri a p sz),
            Some (updateStreak (nowStreak env)
                    (p\<lparr>photos := photos p @ [newPhoto env uri a p sz],
                       totalPhotos := int (length (photos p)) + 1,
                       lastPhotoDate := Some (nowLastPhoto env)\<rparr>)))"
  using assms by (simp add: savePhoto_def getUserProgress_def newPhoto_def Let_def add.commute)

lemma savePhoto_failure:
  assumes "\<not> (initializeOk env \<and> readOk env \<and> copyOk env \<and> fileInfo env \<noteq> None \<and> writeOk env)
           \<or> s = None"
  shows "isl (fst (savePhoto env uri a s)) \<and> snd (savePhoto env uri a s) = s"
  using assms
  by (auto simp add: savePhoto_def getUserProgress_def Let_def split: option.split)

text \<open>
  The two clock readings \<open>nowLastPhoto\<close> and \<open>nowStreak\<close> are taken in consecutive
  statements. Whenever the second is not before the first and less than a day after it,
  a successful \<^verbatim>\<open>savePhoto\<close> persists the \<open>currentStreak\<close> it read.
\<close>

lemma savePhoto_currentStreak_unchanged:
  assumes "initializeOk env" "readOk env" "copyOk env" "fileInfo env = Some sz" "writeOk env"
    and "nowLastPhoto env \<le> nowStreak env" "nowStreak env < nowLastPhoto env + msPerDay"
  shows "\<exists>p'. snd (savePhoto env uri a (Some p)) = Some p'
           \<and> currentStreak p' = currentStreak p"
  using assms
  by (simp add: savePhoto_success updateStreak_within_a_day [where prev = "nowLastPhoto env"])

lemma savePhoto_captureAt_currentStreak:
  "\<exists>p'. snd (savePhoto (captureAt t) uri a (Some p)) = Some p'
      \<and> currentStreak p' = currentStreak p \<and> lastPhotoDate p' = Some t"
  by (simp add: savePhoto_success [where sz = "Some 1024"]
        updateStreak_within_a_day [where prev = t] msPerDay_def)

section \<open>Invariants of the stored progress\<close>

lemma savePhoto_invariant:
  assumes "s = Some p" "currentStreak p \<le> longestStreak p" "totalPhotos p = int (length (photos p))"
  shows "\<exists>p'. snd (savePhoto env uri a s) = Some p' \<and> currentStreak p' \<le> longestStreak p'
           \<and> totalPhotos p' = int (length (photos p')) \<and> longestStreak p \<le> longestStreak p'"
proof (cases "initializeOk env \<and> readOk env \<and> copyOk env \<and> fileInfo env \<noteq> None \<and> writeOk env")
  case True
  then obtain sz where sz: "fileInfo env = Some sz" by auto
  let ?q = "p\<lparr>photos := photos p @ [newPhoto env uri a p sz],
              totalPhotos := int (length (photos p)) + 1,
              lastPhotoDate := Some (nowLastPhoto env)\<rparr>"
  have eq: "snd (savePhoto env uri a s) = Some (updateStreak (nowStreak env) ?q)"
    using True sz assms(1) by (simp add: savePhoto_success)
  have "longestStreak p \<le> longestStreak (updateStreak (nowStreak env) ?q)"
    using updateStreak_longest_mono [of ?q "nowStreak env"] by simp
  then show ?thesis
    using eq updateStreak_current_le_longest [of "nowStreak env" ?q] by simp
next
  case False
  then have "snd (savePhoto env uri a s) = s"
    using savePhoto_failure [of env s uri a] by blast
  then show ?thesis using assms by simp
qed

lemma savePhotos_append:
  "savePhotos s (calls @ later) = savePhotos (savePhotos s calls) later"
  by (induction calls arbitrary: s) auto

lemma savePhotos_invariant:
  assumes "s = Some p" "currentStreak p \<le> longestStreak p" "totalPhotos p = int (length (photos p))"
  shows "\<exists>p'. savePhotos s calls = Some p' \<and> currentStreak p' \<le> longestStreak p'
           \<and> totalPhotos p' = int (length (photos p')) \<and> longestStreak p \<le> longestStreak p'"
  using assms
proof (induction calls arbitrary: s p)
  case Nil
  then show ?case by simp
next
  case (Cons c calls)
  obtain env uri a where c: "c = (env, uri, a)" by (cases c) auto
  obtain q where q: "snd (savePhoto env uri a s) = Some q" "currentStreak q \<le> longestStreak q"
      "totalPhotos q = int (length (photos q))" "longestStreak p \<le> longestStreak q"
    using savePhoto_invariant [OF Cons.prems] by blast
  obtain p' where "savePhotos (Some q) calls = Some p'" "currentStreak p' \<le> longestStreak p'"
      "totalPhotos p' = int (length (photos p'))" "longestStreak q \<le> longestStreak p'"
    using Cons.IH [OF refl q(2) q(3)] by blast
  then show ?case using c q by auto
qed

lemma initialProgress_invariant:
  "currentStreak (initialProgress t0) \<le> longestStreak (initialProgress t0)"
  "totalPhotos (initialProgress t0) = int (length (photos (initialProgress t0)))"
  by (simp_all add: initialProgress_def)

text \<open>
  Claim C8. In the state \<^verbatim>\<open>initializeUser\<close> creates and in the state after any sequence
  of \<^verbatim>\<open>savePhoto\<close> calls (whatever their clock readings, and whichever of them fail),
  \<open>currentStreak \<le> longestStreak\<close>; and \<open>longestStreak\<close> is never smaller after any
  further calls than it was before them.
\<close>

theorem longestStreak_invariant:
  "\<exists>p q. savePhotos (Some (initialProgress t0)) calls = Some p
      \<and> savePhotos (Some (initialProgress t0)) (calls @ later) = Some q
      \<and> currentStreak p \<le> longestStreak p
      \<and> longestStreak p \<le> longestStreak q"
proof -
  obtain p where p: "savePhotos (Some (initialProgress t0)) calls = Some p"
      "currentStreak p \<le> longestStreak p" "totalPhotos p = int (length (photos p))"
    using savePhotos_invariant [OF refl initialProgress_invariant] by blast
  obtain q where "savePhotos (Some p) later = Some q" "longestStreak p \<le> longestStreak q"
    using savePhotos_invariant [OF refl p(2) p(3)] by blast
  then show ?thesis using p by (auto simp add: savePhotos_append)
qed

text \<open>
  Claim C9. In the state after any sequence of \<^verbatim>\<open>savePhoto\<close> calls, \<open>totalPhotos\<close> is the
  number of stored photo records, and every further \<^verbatim>\<open>savePhoto\<close> that succeeds appends
  exactly the record it returns and increases \<open>totalPhotos\<close> by exactly 1, whatever its
  clock readings (so also for a second photo on the same calendar day).
\<close>

theorem totalPhotos_counts_records:
  "\<exists>p. savePhotos (Some (initialProgress t0)) calls = Some p
     \<and> totalPhotos p = int (length (photos p))
     \<and> (\<forall>env uri a. \<not> isl (fst (savePhoto env uri a (Some p))) \<longrightarrow>
          (\<exists>photo p'. savePhoto env uri a (Some p) = (Inr photo, Some p')
             \<and> photos p' = photos p @ [photo]
             \<and> totalPhotos p' = totalPhotos p + 1
             \<and> totalPhotos p' = int (length (photos p'))))"
proof -
  obtain p where p: "savePhotos (Some (initialProgress t0)) calls = Some p"
      "totalPhotos p = int (length (photos p))"
    using savePhotos_invariant [OF refl initialProgress_invariant] by blast
  have "\<exists>photo p'. savePhoto env uri a (Some p) = (Inr photo, Some p')
             \<and> photos p' = photos p @ [photo]
             \<and> totalPhotos p' = totalPhotos p + 1
             \<and> totalPhotos p' = int (length (photos p'))"
    if ok: "\<not> isl (fst (savePhoto env uri a (Some p)))" for env uri a
  proof -
    have all: "initializeOk env \<and> readOk env \<and> copyOk env \<and> fileInfo env \<noteq> None \<and> writeOk env"
      using ok savePhoto_failure [of env "Some p" uri a] by blast
    then obtain sz where "fileInfo env = Some sz" by auto
    with all show ?thesis using p(2) by (simp add: savePhoto_success)
  qed
  with p show ?thesis by blast
qed

text \<open>
  The instance of C9 at a second photo on the same day: after a first photo at noon of
  1970-01-01 (UTC) a second one, less than two hours later, is appended and counted.
\<close>

theorem totalPhotos_counts_records_witness:
  "\<exists>p p'. savePhotos (Some (initialProgress 0)) [(captureAt 43200000, ''file:///tmp/a.jpg'', Front)] = Some p
     \<and> totalPhotos p = 1
     \<and> snd (savePhoto (captureAt 50000000) ''file:///tmp/b.jpg'' Side (Some p)) = Some p'
     \<and> totalPhotos p' = 2 \<and> length (photos p') = 2 \<and> currentStreak p' = currentStreak p"
proof -
  obtain p where p: "savePhotos (Some (initialProgress 0)) [(captureAt 43200000, ''file:///tmp/a.jpg'', Front)] = Some p"
    "totalPhotos p = int (length (photos p))"
    and step: "\<forall>env uri a. \<not> isl (fst (savePhoto env uri a (Some p))) \<longrightarrow>
          (\<exists>photo p'. savePhoto env uri a (Some p) = (Inr photo, Some p')
             \<and> photos p' = photos p @ [photo]
             \<and> totalPhotos p' = totalPhotos p + 1
             \<and> totalPhotos p' = int (length (photos p')))"
    using totalPhotos_counts_records [of 0 "[(captureAt 43200000, ''file:///tmp/a.jpg'', Front)]"]
    by blast
  have one: "totalPhotos p = 1"
    using p(1) by (auto simp add: savePhoto_success [where sz = "Some 1024"] initialProgress_def)
  have ok: "\<not> isl (fst (savePhoto (captureAt 50000000) ''file:///tmp/b.jpg'' Side (Some p)))"
    by (simp add: savePhoto_success [where sz = "Some 1024"])
  obtain photo p' where p': "savePhoto (captureAt 50000000) ''file:///tmp/b.jpg'' Side (Some p) = (Inr photo, Some p')"
      "photos p' = photos p @ [photo]" "totalPhotos p' = totalPhotos p + 1"
      "totalPhotos p' = int (length (photos p'))"
    using step ok by blast
  have "currentStreak p' = currentStreak p"
    using p'(1) savePhoto_captureAt_currentStreak [of 50000000 "''file:///tmp/b.jpg''" Side p] by simp
  then show ?thesis using p(1) one p' by auto
qed

section \<open>Streak transitions through savePhoto\<close>

text \<open>
  \<^verbatim>\<open>savePhoto\<close> assigns \<^verbatim>\<open>progress.lastPhotoDate = new Date()\<close> before it calls
  \<^verbatim>\<open>updateStreak\<close>, so \<^verbatim>\<open>updateStreak\<close> never sees the date of the previous photo: it
  compares its own clock reading with the one taken a statement earlier, finds a day
  difference of 0 and leaves \<open>currentStreak\<close> alone (lemma
  \<open>savePhoto_captureAt_currentStreak\<close>). The branches for a first photo and for a
  consecutive day are there in \<^verbatim>\<open>updateStreak\<close> but \<^verbatim>\<open>savePhoto\<close> cannot reach them.
\<close>

text \<open>
  Claim C1 says that a capture on the calendar day after the stored \<open>lastPhotoDate\<close>
  raises the persisted \<open>currentStreak\<close> by 1. The code at such a capture: after
  \<^verbatim>\<open>initializeUser\<close> at the epoch and a first photo at noon of 1970-01-01 (UTC), the stored
  \<open>lastPhotoDate\<close> is that noon and \<open>currentStreak\<close> is 0; after a second photo at noon of
  1970-01-02, \<open>currentStreak\<close> is still 0, not 1.
\<close>

theorem next_day_capture_streak_unchanged:
  "map_option lastPhotoDate
       (savePhotos (Some (initialProgress 0))
          [(captureAt 43200000, ''file:///tmp/day1.jpg'', Front)]) = Some (Some 43200000)
   \<and> map_option currentStreak
       (savePhotos (Some (initialProgress 0))
          [(captureAt 43200000, ''file:///tmp/day1.jpg'', Front)]) = Some 0
   \<and> map_option currentStreak
       (savePhotos (Some (initialProgress 0))
          [(captureAt 43200000, ''file:///tmp/day1.jpg'', Front),
           (captureAt 129600000, ''file:///tmp/day2.jpg'', Front)]) = Some 0"
proof -
  obtain p where p: "snd (savePhoto (captureAt 43200000) ''file:///tmp/day1.jpg'' Front
                       (Some (initialProgress 0))) = Some p"
      "currentStreak p = currentStreak (initialProgress 0)" "lastPhotoDate p = Some 43200000"
    using savePhoto_captureAt_currentStreak by blast
  obtain q where q: "snd (savePhoto (captureAt 129600000) ''file:///tmp/day2.jpg'' Front (Some p))
                       = Some q" "currentStreak q = currentStreak p"
    using savePhoto_captureAt_currentStreak by blast
  show ?thesis using p q by (simp add: initialProgress_def)
qed

text \<open>
  Claim C2 says that the first photo ever saved leaves \<open>currentStreak = 1\<close>. The code at
  the first photo: the progress \<^verbatim>\<open>initializeUser\<close> wrote has no photo and no
  \<open>lastPhotoDate\<close>, and after \<^verbatim>\<open>savePhoto\<close> the persisted \<open>currentStreak\<close> is 0.
\<close>

theorem first_photo_streak_stays_zero:
  "totalPhotos (initialProgress 0) = 0 \<and> lastPhotoDate (initialProgress 0) = None
   \<and> map_option currentStreak
       (snd (savePhoto (captureAt 43200000) ''file:///tmp/day1.jpg'' Front
               (Some (initialProgress 0)))) = Some 0"
proof -
  obtain p where "snd (savePhoto (captureAt 43200000) ''file:///tmp/day1.jpg'' Front
                       (Some (initialProgress 0))) = Some p"
      "currentStreak p = currentStreak (initialProgress 0)"
    using savePhoto_captureAt_currentStreak by blast
  then show ?thesis by (simp add: initialProgress_def)
qed

section \<open>Backdated captures\<close>

lemma savePhoto_success_changes_store:
  assumes "initializeOk env" "readOk env" "copyOk env" "fileInfo env = Some sz" "writeOk env"
  shows "snd (savePhoto env uri a (Some p)) \<noteq> Some p"
proof
  assume "snd (savePhoto env uri a (Some p)) = Some p"
  then have "updateStreak (nowStreak env)
               (p\<lparr>photos := photos p @ [newPhoto env uri a p sz],
                  totalPhotos := int (length (photos p)) + 1,
                  lastPhotoDate := Some (nowLastPhoto env)\<rparr>) = p"
    using assms by (simp add: savePhoto_success)
  then have "length (photos (updateStreak (nowStreak env)
               (p\<lparr>photos := photos p @ [newPhoto env uri a p sz],
                  totalPhotos := int (length (photos p)) + 1,
                  lastPhotoDate := Some (nowLastPhoto env)\<rparr>))) = length (photos p)"
    by simp
  then show False by simp
qed

text \<open>
  Claim C3 says that a capture earlier than the stored \<open>lastPhotoDate\<close> is rejected with
  a clock anomaly error and leaves the progress unchanged. It is not: with a photo stored
  at noon of 1970-01-02, a capture at noon of 1970-01-01 succeeds and changes the stored
  progress.
\<close>

theorem backdated_capture_counterexample:
  "map_option lastPhotoDate
       (savePhotos (Some (initialProgress 0))
          [(captureAt 129600000, ''file:///tmp/day2.jpg'', Front)]) = Some (Some 129600000)
   \<and> \<not> isl (fst (savePhoto (captureAt 43200000) ''file:///tmp/day1.jpg'' Front
                (savePhotos (Some (initialProgress 0))
                   [(captureAt 129600000, ''file:///tmp/day2.jpg'', Front)])))
   \<and> snd (savePhoto (captureAt 43200000) ''file:///tmp/day1.jpg'' Front
                (savePhotos (Some (initialProgress 0))
                   [(captureAt 129600000, ''file:///tmp/day2.jpg'', Front)]))
       \<noteq> savePhotos (Some (initialProgress 0))
                   [(captureAt 129600000, ''file:///tmp/day2.jpg'', Front)]"
proof -
  obtain p where p: "savePhotos (Some (initialProgress 0))
          [(captureAt 129600000, ''file:///tmp/day2.jpg'', Front)] = Some p"
      "lastPhotoDate p = Some 129600000"
    using savePhoto_captureAt_currentStreak
            [of 129600000 "''file:///tmp/day2.jpg''" Front "initialProgress 0"]
    by auto
  have "\<not> isl (fst (savePhoto (captureAt 43200000) ''file:///tmp/day1.jpg'' Front (Some p)))"
    by (simp add: savePhoto_success [where sz = "Some 1024"])
  moreover have "snd (savePhoto (captureAt 43200000) ''file:///tmp/day1.jpg'' Front (Some p))
                   \<noteq> Some p"
    by (rule savePhoto_success_changes_store [where sz = "Some 1024"]) simp_all
  ultimately show ?thesis using p by simp
qed

text \<open>
  Claim C3 as the code has it. There is no clock anomaly error. \<^verbatim>\<open>updateStreak\<close>, given a
  clock reading earlier than the \<open>lastPhotoDate\<close> of its progress, takes the branch of a
  broken streak and sets \<open>currentStreak\<close> to 1; and \<^verbatim>\<open>savePhoto\<close> at a capture instant
  earlier than the stored \<open>lastPhotoDate\<close>, when its awaited calls succeed, returns the
  new record and persists a changed progress: the record appended, \<open>totalPhotos\<close> the
  number of records, \<open>lastPhotoDate\<close> the capture instant.
\<close>

theorem backdated_capture_accepted:
  assumes "lastPhotoDate p = Some prev" "nowLastPhoto env < prev" "today < prev"
    and "initializeOk env" "readOk env" "copyOk env" "fileInfo env = Some sz" "writeOk env"
  shows "currentStreak (updateStreak today p) = 1
     \<and> (\<exists>photo p'. savePhoto env uri a (Some p) = (Inr photo, Some p')
           \<and> photos p' = photos p @ [photo]
           \<and> totalPhotos p' = int (length (photos p')) 
           \<and> lastPhotoDate p' = Some (nowLastPhoto env)
           \<and> p' \<noteq> p)"
proof -
  have "snd (savePhoto env uri a (Some p)) \<noteq> Some p"
    using assms(4-8) by (rule savePhoto_success_changes_store)
  then show ?thesis
    using assms updateStreak_backdated [of p prev today]
    by (auto simp add: savePhoto_success)
qed

text \<open>The instance of C3 at the capture of the counterexample.\<close>

theorem backdated_capture_accepted_witness:
  "\<exists>p p'. savePhotos (Some (initialProgress 0))
            [(captureAt 129600000, ''file:///tmp/day2.jpg'', Front)] = Some p
     \<and> lastPhotoDate p = Some 129600000
     \<and> currentStreak (updateStreak 43200000 p) = 1
     \<and> snd (savePhoto (captureAt 43200000) ''file:///tmp/day1.jpg'' Front (Some p)) = Some p'
     \<and> length (photos p') = length (photos p) + 1
     \<and> lastPhotoDate p' = Some 43200000"
proof -
  obtain p where p: "snd (savePhoto (captureAt 129600000) ''file:///tmp/day2.jpg'' Front
                       (Some (initialProgress 0))) = Some p" "lastPhotoDate p = Some 129600000"
    using savePhoto_captureAt_currentStreak by blast
  have "currentStreak (updateStreak 43200000 p) = 1
     \<and> (\<exists>photo p'. savePhoto (captureAt 43200000) ''file:///tmp/day1.jpg'' Front (Some p)
             = (Inr photo, Some p')
           \<and> photos p' = photos p @ [photo]
           \<and> totalPhotos p' = int (length (photos p')) 
           \<and> lastPhotoDate p' = Some (nowLastPhoto (captureAt 43200000))
           \<and> p' \<noteq> p)"
    by (rule backdated_capture_accepted [where prev = 129600000 and sz = "Some 1024"])
       (simp_all add: p)
  then show ?thesis using p by auto
qed

section \<open>Day numbers\<close>

text \<open>
  Claim C4 says that the day number is the ceiling of the elapsed days with a floor of 1,
  so at least 1 also at exactly the \<open>startDate\<close> instant. There is no floor: at that
  instant \<^verbatim>\<open>calculateDayNumber\<close> is 0, and a photo saved at the very instant of
  \<^verbatim>\<open>initializeUser\<close> gets day number 0.
\<close>

theorem dayNumber_counterexample:
  "\<not> 1 \<le> calculateDayNumber 1700000000000 1700000000000
   \<and> map_sum id dayNumber
       (fst (savePhoto (captureAt 0) ''file:///tmp/day1.jpg'' Front (Some (initialProgress 0))))
     = Inr 0"
  by (simp add: savePhoto_success [where sz = "Some 1024"] newPhoto_def calculateDayNumber_def
        toDouble_def initialProgress_def)

lemma calculateDayNumber_positive_iff:
  "1 \<le> calculateDayNumber now start \<longleftrightarrow> now \<noteq> start"
proof -
  have "0 < msPerDay" by (simp add: msPerDay_def)
  then have "- \<bar>toDouble (now - start)\<bar> div msPerDay < 0 \<longleftrightarrow> - \<bar>toDouble (now - start)\<bar> < 0"
    by (simp add: neg_imp_zdiv_neg_iff div_neg_pos_less0 pos_imp_zdiv_neg_iff)
  moreover have "- \<bar>toDouble (now - start)\<bar> < 0 \<longleftrightarrow> now \<noteq> start"
    using toDouble_zero_iff [of "now - start"] by auto
  ultimately show ?thesis by (auto simp add: calculateDayNumber_def Let_def)
qed

text \<open>
  Claim C4 as the code has it. When the clock reading \<open>now\<close> of \<^verbatim>\<open>calculateDayNumber\<close>
  and \<open>startDate\<close> are at most 2^53 ms apart (some 285000 years; up to there the double
  subtraction is exact), the day number of a saved photo is the ceiling of
  \<open>|now - startDate| / 24h\<close>; it is at least 1 exactly when that reading differs from
  \<open>startDate\<close>, and 0 when it equals \<open>startDate\<close>.
\<close>

theorem dayNumber_is_ceiling_without_floor:
  assumes "fst (savePhoto env uri a (Some p)) = Inr photo"
    and "\<bar>nowDayNumber env - startDate p\<bar> \<le> 2 ^ 53"
  shows "dayNumber photo = \<lceil>real_of_int \<bar>nowDayNumber env - startDate p\<bar> / real_of_int msPerDay\<rceil>
     \<and> (1 \<le> dayNumber photo \<longleftrightarrow> nowDayNumber env \<noteq> startDate p)
     \<and> (nowDayNumber env = startDate p \<longrightarrow> dayNumber photo = 0)"
proof -
  have "\<not> isl (fst (savePhoto env uri a (Some p)))" using assms by simp
  then have all: "initializeOk env \<and> readOk env \<and> copyOk env \<and> fileInfo env \<noteq> None \<and> writeOk env"
    using savePhoto_failure [of env "Some p" uri a] by blast
  then obtain sz where "fileInfo env = Some sz" by auto
  with all assms(1) have "dayNumber photo = calculateDayNumber (nowDayNumber env) (startDate p)"
    by (auto simp add: savePhoto_success newPhoto_def)
  then show ?thesis
    using calculateDayNumber_ceiling [OF assms(2)]
      calculateDayNumber_positive_iff [of "nowDayNumber env" "startDate p"]
    by auto
qed

text \<open>
  The instance of C4 one millisecond after the first 24 hours: day number 2; at exactly
  24 hours it is 1.
\<close>

theorem dayNumber_is_ceiling_without_floor_witness:
  "dayNumber (newPhoto (captureAt 86400001) ''file:///tmp/day2.jpg'' Front (initialProgress 0) (Some 1024)) = 2
   \<and> dayNumber (newPhoto (captureAt 86400000) ''file:///tmp/day2.jpg'' Front (initialProgress 0) (Some 1024)) = 1"
proof -
  have "fst (savePhoto (captureAt 86400001) ''file:///tmp/day2.jpg'' Front (Some (initialProgress 0)))
     = Inr (newPhoto (captureAt 86400001) ''file:///tmp/day2.jpg'' Front (initialProgress 0) (Some 1024))"
    by (simp add: savePhoto_success [where sz = "Some 1024"])
  moreover have "\<bar>nowDayNumber (captureAt 86400001) - startDate (initialProgress 0)\<bar> \<le> 2 ^ 53"
    by (simp add: initialProgress_def)
  ultimately
  have "dayNumber (newPhoto (captureAt 86400001) ''file:///tmp/day2.jpg'' Front (initialProgress 0) (Some 1024))
     = \<lceil>real_of_int \<bar>86400001 - 0\<bar> / real_of_int msPerDay\<rceil>"
    using dayNumber_is_ceiling_without_floor
            [of "captureAt 86400001" "''file:///tmp/day2.jpg''" Front "initialProgress 0"]
    by (simp add: initialProgress_def)
  then show ?thesis
    by (simp add: msPerDay_def newPhoto_def calculateDayNumber_def toDouble_def
          initialProgress_def)
qed

section \<open>Failure of the image copy\<close>

text \<open>
  Claim C5. If the copy of the image into the app's directory fails, \<^verbatim>\<open>savePhoto\<close> ends
  with an error and the stored progress is exactly what it was; when the call got as far
  as the copy (initialisation succeeded and a progress was read) the error is the copy's.
\<close>

theorem copy_failure_leaves_progress:
  assumes "\<not> copyOk env"
  shows "isl (fst (savePhoto env uri a s)) \<and> snd (savePhoto env uri a s) = s
     \<and> (initializeOk env \<and> getUserProgress (readOk env) s \<noteq> None
          \<longrightarrow> fst (savePhoto env uri a s) = Inl CopyError)"
  using assms savePhoto_failure [of env s uri a]
  by (auto simp add: savePhoto_def Let_def)

text \<open>
  The instance of C5 at a second photo whose copy fails: the error is the copy's and the
  progress stored by the first photo stays.
\<close>

theorem copy_failure_leaves_progress_witness:
  "fst (savePhoto ((captureAt 129600000)\<lparr>copyOk := False\<rparr>) ''file:///tmp/day2.jpg'' Front
         (savePhotos (Some (initialProgress 0))
            [(captureAt 43200000, ''file:///tmp/day1.jpg'', Front)])) = Inl CopyError
   \<and> snd (savePhoto ((captureAt 129600000)\<lparr>copyOk := False\<rparr>) ''file:///tmp/day2.jpg'' Front
         (savePhotos (Some (initialProgress 0))
            [(captureAt 43200000, ''file:///tmp/day1.jpg'', Front)]))
      = savePhotos (Some (initialProgress 0))
            [(captureAt 43200000, ''file:///tmp/day1.jpg'', Front)]"
  using copy_failure_leaves_progress
     [of "(captureAt 129600000)\<lparr>copyOk := False\<rparr>" "''file:///tmp/day2.jpg''" Front
         "savePhotos (Some (initialProgress 0))
            [(captureAt 43200000, ''file:///tmp/day1.jpg'', Front)]"]
  by (simp add: getUserProgress_def savePhoto_success [where sz = "Some 1024"])

section \<open>The frame of updateStreak\<close>

text \<open>
  Claim C10. \<^verbatim>\<open>updateStreak\<close> changes only \<open>currentStreak\<close> and \<open>longestStreak\<close> of the
  progress it is given: \<open>startDate\<close>, \<open>totalPhotos\<close>, \<open>photos\<close> and \<open>lastPhotoDate\<close>
  are as on entry.
\<close>

theorem updateStreak_frame:
  "updateStreak today progress =
     progress\<lparr>currentStreak := currentStreak (updateStreak today progress),
              longestStreak := longestStreak (updateStreak today progress)\<rparr>
   \<and> startDate (updateStreak today progress) = startDate progress
   \<and> totalPhotos (updateStreak today progress) = totalPhotos progress
   \<and> photos (updateStreak today progress) = photos progress
   \<and> lastPhotoDate (updateStreak today progress) = lastPhotoDate progress"
  by (simp add: updateStreak_def Let_def split: option.split)

section \<open>Cancellation of notifications\<close>

lemma property_Promise [simp]: "property field (Promise x) = None"
  by (simp add: property_def)

lemma property_Plain [simp]: "property field (Plain x) = Some (field x)"
  by (simp add: property_def)



lemma sendStreakCelebration_unawaited: "sendStreakCelebration streakDays st = st"
  by (simp add: sendStreakCelebration_def sendStreakCelebrationOn_def getSettings_def)








section \<open>Streak celebrations\<close>

text \<open>
  Claim C7 says that \<^verbatim>\<open>sendStreakCelebration\<close> sends exactly one immediate notification
  when celebrations are enabled and the streak is a milestone, with the copy of its tier.
  The code at streak 7 with the default settings (celebrations enabled, 7 a milestone):
  \<^verbatim>\<open>getSettings\<close> is async and is not awaited, the settings read is a Promise, the access
  to \<^verbatim>\<open>settings.streakCelebration.enabled\<close> throws, and no notification is sent.
\<close>

theorem milestone_celebration_not_sent:
  "celebrationEnabled (streakCelebration DEFAULT_SETTINGS)
   \<and> List.member (milestones (streakCelebration DEFAULT_SETTINGS)) 7
   \<and> getSettings freshState = Promise DEFAULT_SETTINGS
   \<and> notifierCalls (sendStreakCelebration 7 freshState) = []"
  by (simp add: sendStreakCelebration_unawaited freshState_def getSettings_def
        DEFAULT_SETTINGS_def)

text \<open>
  On the settings object itself (what an awaited \<^verbatim>\<open>getSettings\<close> gives) the body of
  \<^verbatim>\<open>sendStreakCelebration\<close> does what C7 says: one immediate notification exactly when
  celebrations are enabled and the streak is a milestone, with the copy of the tier.
\<close>

lemma sendStreakCelebrationOn_awaited:
  "notifierCalls (sendStreakCelebrationOn (Plain settings) streakDays st) =
     notifierCalls st @
       (if celebrationEnabled (streakCelebration settings)
           \<and> List.member (milestones (streakCelebration settings)) streakDays
        then [ScheduleNotification
                \<lparr>title = fst (celebrationCopy streakDays),
                 body = snd (celebrationCopy streakDays),
                 dataType = ''streak_celebration'',
                 dataStreakDays = Some streakDays, sound = True\<rparr>
                Immediately]
        else [])"
  by (simp add: sendStreakCelebrationOn_def)

lemma awaited_default_examples:
  "length (notifierCalls (sendStreakCelebrationOn (Plain DEFAULT_SETTINGS) 7 freshState)) = 1"
  "length (notifierCalls (sendStreakCelebrationOn (Plain DEFAULT_SETTINGS) 8 freshState)) = 0"
  by (simp_all add: sendStreakCelebrationOn_awaited DEFAULT_SETTINGS_def freshState_def)

end
